theory Spec2Isabelle
  imports Complex_Main
begin

section \<open>The endless-runner game loop\<close>

text \<open>
  The repository holds two versions of the page \<open>game.tsx\<close>. The elaborate one
  (\<open>src/unnamed/part_000\<close>) has the run states playing, hit and gameover, a height
  \<open>y\<close> that grows upwards and a minimum-distance check in the obstacle spawner. The
  basic one (\<open>src/client/src/pages/game.tsx\<close>) has no hit state, a \<open>y\<close> that is
  negative above the ground and no distance check. Both are embedded; the constants of
  the basic version carry the suffix \<open>_ng\<close> (no grace period).

  JavaScript numbers are modelled as \<^typ>\<open>real\<close>: the arithmetic of the loop is
  taken exactly, without the rounding of IEEE doubles. The values \<open>Math.random()\<close>
  returns during one tick are a parameter \<open>rnd\<close>: \<open>rnd k\<close> is the value of call
  number \<open>k\<close> of that tick, counted from 0. A React state setter is taken to have effect before the
  next event is handled, which is when the component has rendered again and the
  callbacks read the new \<open>gameState\<close>.
\<close>

subsection \<open>Data\<close>

datatype run_state = Playing | Hit | GameOver

datatype obs_type = Rock | Bush | Tree

record player =
  p_y :: real
  p_dy :: real
  grounded :: bool

record obstacle =
  o_id :: nat
  o_x :: real
  o_w :: real
  o_h :: real
  o_type :: obs_type

record coin =
  c_id :: nat
  c_x :: real
  c_y :: real
  collected :: bool

record hitbox =
  b_x :: real
  b_y :: real
  b_w :: real
  b_h :: real

text \<open>
  The component's state: the three React states, the refs of the game loop, and
  \<open>timeouts\<close>, the number of callbacks registered with \<open>setTimeout\<close> that have not
  run yet.
\<close>

record game =
  gameState :: run_state
  score :: int
  coins :: nat
  playerRef :: player
  obstaclesRef :: "obstacle list"
  coinsRef :: "coin list"
  gameSpeedRef :: real
  scoreRef :: real
  lastTimeRef :: "real option"
  bgOffsetRef :: real
  nextIdRef :: nat
  timeouts :: nat

definition GRAVITY :: real where
  "GRAVITY = - 0.55"

definition JUMP_FORCE :: real where
  "JUMP_FORCE = 16"

definition SPEED_INCREMENT :: real where
  "SPEED_INCREMENT = 0.0005"

text \<open>The state of the first render: the initial values of \<open>useState\<close> and \<open>useRef\<close>.\<close>

definition initial :: game where
  "initial = \<lparr>gameState = Playing, score = 0, coins = 0,
     playerRef = \<lparr>p_y = 0, p_dy = 0, grounded = True\<rparr>,
     obstaclesRef = [], coinsRef = [], gameSpeedRef = 7, scoreRef = 0,
     lastTimeRef = None, bgOffsetRef = 0, nextIdRef = 0, timeouts = 0\<rparr>"

subsection \<open>Jump and reset\<close>

definition handleJump :: "game \<Rightarrow> game" where
  "handleJump g =
     (if grounded (playerRef g) \<and> gameState g = Playing
      then g\<lparr>playerRef := (playerRef g)\<lparr>p_dy := JUMP_FORCE, grounded := False\<rparr>\<rparr>
      else g)"

definition resetGame :: "game \<Rightarrow> game" where
  "resetGame g = g\<lparr>playerRef := \<lparr>p_y = 0, p_dy = 0, grounded = True\<rparr>,
     obstaclesRef := [], coinsRef := [], gameSpeedRef := 7, scoreRef := 0,
     bgOffsetRef := 0, score := 0, coins := 0, gameState := Playing\<rparr>"

subsection \<open>One tick\<close>

text \<open>Gravity, then the ground: \<open>player.dy += GRAVITY; player.y += player.dy\<close>.\<close>

definition physics :: "player \<Rightarrow> player" where
  "physics p =
     (let p1 = p\<lparr>p_dy := p_dy p + GRAVITY\<rparr>;
          p2 = p1\<lparr>p_y := p_y p1 + p_dy p1\<rparr>
      in if p_y p2 < 0 then p2\<lparr>p_y := 0, p_dy := 0, grounded := True\<rparr> else p2)"

text \<open>
  The obstacle spawner. It returns the list, the next id, and the number of calls of
  \<open>Math.random()\<close> it made. \<open>lastObs\<close> is undefined for the empty list.
\<close>

definition spawnObstacle :: "(nat \<Rightarrow> real) \<Rightarrow> obstacle list \<Rightarrow> nat \<Rightarrow> obstacle list \<times> nat \<times> nat" where
  "spawnObstacle rnd obs nid =
     (if rnd 0 < 0.015 then
        let typeRand = rnd 1;
            (ty, width, height) =
              (if typeRand > 0.65 then (Tree, 70, 90)
               else if typeRand > 0.35 then (Bush, 60, 50)
               else (Rock, 50, 50))
        in if obs = [] \<or> o_x (last obs) < 800
           then (obs @ [\<lparr>o_id = nid, o_x = 1300 + rnd 2 * 300, o_w = width, o_h = height,
                          o_type = ty\<rparr>], nid + 1, 3)
           else (obs, nid, 2)
      else (obs, nid, 1))"

definition spawnCoin :: "(nat \<Rightarrow> real) \<Rightarrow> nat \<Rightarrow> coin list \<Rightarrow> nat \<Rightarrow> coin list \<times> nat" where
  "spawnCoin rnd k cs nid =
     (if rnd k < 0.02
      then (cs @ [\<lparr>c_id = nid, c_x = 1300, c_y = (if rnd (k + 1) > 0.5 then 160 else 70),
                    collected = False\<rparr>], nid + 1)
      else (cs, nid))"

text \<open>Shift to the left by the speed, then drop what has left the screen.\<close>

definition advanceObstacles :: "real \<Rightarrow> obstacle list \<Rightarrow> obstacle list" where
  "advanceObstacles speed obs =
     filter (\<lambda>ob. o_x ob > - 200) (map (\<lambda>ob. ob\<lparr>o_x := o_x ob - speed\<rparr>) obs)"

definition advanceCoins :: "real \<Rightarrow> coin list \<Rightarrow> coin list" where
  "advanceCoins speed cs =
     filter (\<lambda>c. c_x c > - 100) (map (\<lambda>c. c\<lparr>c_x := c_x c - speed\<rparr>) cs)"

definition playerHitbox :: "player \<Rightarrow> hitbox" where
  "playerHitbox p = \<lparr>b_x = 100 + 20, b_y = p_y p, b_w = 30, b_h = 60\<rparr>"

definition obsHitbox :: "obstacle \<Rightarrow> hitbox" where
  "obsHitbox ob = \<lparr>b_x = o_x ob + 10, b_y = 0, b_w = o_w ob - 20, b_h = o_h ob - 10\<rparr>"

definition coinHitbox :: "coin \<Rightarrow> hitbox" where
  "coinHitbox c = \<lparr>b_x = c_x c, b_y = c_y c, b_w = 40, b_h = 40\<rparr>"

text \<open>The four comparisons both versions write out at each of their collision tests.\<close>

definition overlaps :: "hitbox \<Rightarrow> hitbox \<Rightarrow> bool" where
  "overlaps a b \<longleftrightarrow>
     b_x a < b_x b + b_w b \<and> b_x a + b_w a > b_x b \<and>
     b_y a < b_y b + b_h b \<and> b_y a + b_h a > b_y b"

text \<open>
  The loop over the obstacles returns from \<open>update\<close> at the first obstacle that
  overlaps; the result is that obstacle together with the number of obstacles the loop
  has tested, or \<open>None\<close> with nothing found.
\<close>

fun checkObstacles :: "hitbox \<Rightarrow> obstacle list \<Rightarrow> (obstacle \<times> nat) option" where
  "checkObstacles ph [] = None"
| "checkObstacles ph (ob # rest) =
     (if overlaps ph (obsHitbox ob) then Some (ob, 1)
      else map_option (\<lambda>(hit, n). (hit, n + 1)) (checkObstacles ph rest))"

text \<open>The loop over the coins: the list, and how often \<open>setCoins\<close> was called.\<close>

fun checkCoins :: "hitbox \<Rightarrow> coin list \<Rightarrow> coin list \<times> nat" where
  "checkCoins ph [] = ([], 0)"
| "checkCoins ph (c # rest) =
     (let (rest', n) = checkCoins ph rest
      in if collected c then (c # rest', n)
         else if overlaps ph (coinHitbox c) then (c\<lparr>collected := True\<rparr> # rest', n + 1)
         else (c # rest', n))"

text \<open>\<open>!lastTimeRef.current\<close> holds for \<open>null\<close> and for \<open>0\<close>.\<close>

definition setLastTime :: "real \<Rightarrow> real option \<Rightarrow> real option" where
  "setLastTime time lt =
     (case lt of None \<Rightarrow> Some time | Some t \<Rightarrow> if t = 0 then Some time else Some t)"

definition update :: "real \<Rightarrow> (nat \<Rightarrow> real) \<Rightarrow> game \<Rightarrow> game" where
  "update time rnd g =
     (if gameState g \<noteq> Playing then g
      else
        let pl = physics (playerRef g);
            speed = gameSpeedRef g + SPEED_INCREMENT;
            (obs1, nid1, k) = spawnObstacle rnd (obstaclesRef g) (nextIdRef g);
            (cs1, nid2) = spawnCoin rnd k (coinsRef g) nid1;
            obs2 = advanceObstacles speed obs1;
            cs2 = advanceCoins speed cs1;
            ph = playerHitbox pl;
            g1 = g\<lparr>lastTimeRef := setLastTime time (lastTimeRef g), playerRef := pl,
                   gameSpeedRef := speed, bgOffsetRef := bgOffsetRef g + speed,
                   obstaclesRef := obs2, coinsRef := cs2, nextIdRef := nid2\<rparr>
        in case checkObstacles ph obs2 of
             Some hit \<Rightarrow> g1\<lparr>gameState := Hit, timeouts := timeouts g + 1\<rparr>
           | None \<Rightarrow>
               let (cs3, n) = checkCoins ph cs2;
                   sr = scoreRef g + 0.15
               in g1\<lparr>coinsRef := cs3, coins := coins g + n, scoreRef := sr,
                      score := \<lfloor>sr\<rfloor>\<rparr>)"

subsection \<open>Events\<close>

text \<open>
  What can happen to the component: an animation frame runs \<open>update\<close>, a key or a
  touch runs \<open>handleJump\<close>, the button runs \<open>resetGame\<close>, and a registered timeout
  runs its callback \<open>setGameState("gameover")\<close>. The callback is never cleared, and
  it does not look at the state. The delay of 1500 ms is abstracted: the callback may
  run at any point after it was registered.
\<close>

datatype event = Tick real "nat \<Rightarrow> real" | Jump | Reset | Timeout

definition fireTimeout :: "game \<Rightarrow> game" where
  "fireTimeout g =
     (if timeouts g = 0 then g else g\<lparr>gameState := GameOver, timeouts := timeouts g - 1\<rparr>)"

fun step :: "event \<Rightarrow> game \<Rightarrow> game" where
  "step (Tick time rnd) g = update time rnd g"
| "step Jump g = handleJump g"
| "step Reset g = resetGame g"
| "step Timeout g = fireTimeout g"

text \<open>
  The page renders the button that calls \<open>resetGame\<close> inside the modal of
  \<open>gameState === "gameover"\<close> only, so the user can reset in that state and in no
  other. \<open>ui_step\<close> is \<open>step\<close> with that gate: an event the page does not offer
  changes nothing.
\<close>

fun offered :: "event \<Rightarrow> game \<Rightarrow> bool" where
  "offered Reset g = (gameState g = GameOver)"
| "offered Timeout g = (timeouts g > 0)"
| "offered e g = True"

definition ui_step :: "game \<Rightarrow> event \<Rightarrow> game" where
  "ui_step g e = (if offered e g then step e g else g)"

definition ui_run :: "event list \<Rightarrow> game" where
  "ui_run es = foldl ui_step initial es"

subsection \<open>The basic version\<close>

datatype run_state_ng = PlayingNG | GameOverNG

datatype obs_type_ng = RockNG | BushNG

record obstacle_ng =
  n_x :: real
  n_w :: real
  n_h :: real
  n_type :: obs_type_ng

record coin_ng =
  m_x :: real
  m_y :: real
  m_collected :: bool

record game_ng =
  gameState_ng :: run_state_ng
  score_ng :: int
  coins_ng :: nat
  playerRef_ng :: player
  obstaclesRef_ng :: "obstacle_ng list"
  coinsRef_ng :: "coin_ng list"
  gameSpeedRef_ng :: real
  scoreRef_ng :: real
  lastTimeRef_ng :: "real option"
  bgOffsetRef_ng :: real

definition GRAVITY_ng :: real where
  "GRAVITY_ng = 0.6"

definition JUMP_FORCE_ng :: real where
  "JUMP_FORCE_ng = - 12"

definition SPEED_INCREMENT_ng :: real where
  "SPEED_INCREMENT_ng = 0.001"

definition initial_ng :: game_ng where
  "initial_ng = \<lparr>gameState_ng = PlayingNG, score_ng = 0, coins_ng = 0,
     playerRef_ng = \<lparr>p_y = 0, p_dy = 0, grounded = True\<rparr>,
     obstaclesRef_ng = [], coinsRef_ng = [], gameSpeedRef_ng = 5, scoreRef_ng = 0,
     lastTimeRef_ng = None, bgOffsetRef_ng = 0\<rparr>"

definition handleJump_ng :: "game_ng \<Rightarrow> game_ng" where
  "handleJump_ng g =
     (if grounded (playerRef_ng g) \<and> gameState_ng g = PlayingNG
      then g\<lparr>playerRef_ng := (playerRef_ng g)\<lparr>p_dy := JUMP_FORCE_ng, grounded := False\<rparr>\<rparr>
      else g)"

definition resetGame_ng :: "game_ng \<Rightarrow> game_ng" where
  "resetGame_ng g = g\<lparr>playerRef_ng := \<lparr>p_y = 0, p_dy = 0, grounded = True\<rparr>,
     obstaclesRef_ng := [], coinsRef_ng := [], gameSpeedRef_ng := 5, scoreRef_ng := 0,
     bgOffsetRef_ng := 0, score_ng := 0, coins_ng := 0, gameState_ng := PlayingNG\<rparr>"

text \<open>Here \<open>y\<close> is negative above the ground, and the ground is met from below zero.\<close>

definition physics_ng :: "player \<Rightarrow> player" where
  "physics_ng p =
     (let p1 = p\<lparr>p_dy := p_dy p + GRAVITY_ng\<rparr>;
          p2 = p1\<lparr>p_y := p_y p1 + p_dy p1\<rparr>
      in if p_y p2 > 0 then p2\<lparr>p_y := 0, p_dy := 0, grounded := True\<rparr> else p2)"

text \<open>No test of the distance: every successful draw pushes an obstacle at 1000.\<close>

definition spawnObstacle_ng :: "(nat \<Rightarrow> real) \<Rightarrow> obstacle_ng list \<Rightarrow> obstacle_ng list \<times> nat" where
  "spawnObstacle_ng rnd obs =
     (if rnd 0 < 0.015
      then (obs @ [\<lparr>n_x = 1000, n_w = 50, n_h = 50,
                     n_type = (if rnd 1 > 0.5 then RockNG else BushNG)\<rparr>], 2)
      else (obs, 1))"

definition spawnCoin_ng :: "(nat \<Rightarrow> real) \<Rightarrow> nat \<Rightarrow> coin_ng list \<Rightarrow> coin_ng list" where
  "spawnCoin_ng rnd k cs =
     (if rnd k < 0.02
      then cs @ [\<lparr>m_x = 1000, m_y = (if rnd (k + 1) > 0.5 then - 100 else - 50),
                   m_collected = False\<rparr>]
      else cs)"

definition advanceObstacles_ng :: "real \<Rightarrow> obstacle_ng list \<Rightarrow> obstacle_ng list" where
  "advanceObstacles_ng speed obs =
     filter (\<lambda>ob. n_x ob > - 100) (map (\<lambda>ob. ob\<lparr>n_x := n_x ob - speed\<rparr>) obs)"

definition advanceCoins_ng :: "real \<Rightarrow> coin_ng list \<Rightarrow> coin_ng list" where
  "advanceCoins_ng speed cs =
     filter (\<lambda>c. m_x c > - 100) (map (\<lambda>c. c\<lparr>m_x := m_x c - speed\<rparr>) cs)"

definition playerHitbox_ng :: "player \<Rightarrow> hitbox" where
  "playerHitbox_ng p = \<lparr>b_x = 50, b_y = 300 - p_y p - 80, b_w = 40, b_h = 60\<rparr>"

definition obsHitbox_ng :: "obstacle_ng \<Rightarrow> hitbox" where
  "obsHitbox_ng ob = \<lparr>b_x = n_x ob, b_y = 300 - n_h ob, b_w = n_w ob, b_h = n_h ob\<rparr>"

definition coinHitbox_ng :: "coin_ng \<Rightarrow> hitbox" where
  "coinHitbox_ng c = \<lparr>b_x = m_x c, b_y = 300 + m_y c, b_w = 30, b_h = 30\<rparr>"

text \<open>
  The loop over the obstacles has no \<open>break\<close> and no \<open>return\<close>: it tests every
  obstacle and calls \<open>setGameState("gameover")\<close> at each one that overlaps. The result
  is the run state and the number of obstacles tested.
\<close>

fun checkObstacles_ng :: "hitbox \<Rightarrow> obstacle_ng list \<Rightarrow> run_state_ng \<Rightarrow> run_state_ng \<times> nat" where
  "checkObstacles_ng ph [] st = (st, 0)"
| "checkObstacles_ng ph (ob # rest) st =
     (let (st', n) = checkObstacles_ng ph rest
                       (if overlaps ph (obsHitbox_ng ob) then GameOverNG else st)
      in (st', n + 1))"

fun checkCoins_ng :: "hitbox \<Rightarrow> coin_ng list \<Rightarrow> coin_ng list \<times> nat" where
  "checkCoins_ng ph [] = ([], 0)"
| "checkCoins_ng ph (c # rest) =
     (let (rest', n) = checkCoins_ng ph rest
      in if m_collected c then (c # rest', n)
         else if overlaps ph (coinHitbox_ng c) then (c\<lparr>m_collected := True\<rparr> # rest', n + 1)
         else (c # rest', n))"

text \<open>
  \<open>deltaTime\<close> is computed and not used; \<open>lastTimeRef\<close> ends as \<open>time\<close> on either
  branch of the test before it.
\<close>

definition update_ng :: "real \<Rightarrow> (nat \<Rightarrow> real) \<Rightarrow> game_ng \<Rightarrow> game_ng" where
  "update_ng time rnd g =
     (if gameState_ng g \<noteq> PlayingNG then g
      else
        let pl = physics_ng (playerRef_ng g);
            speed = gameSpeedRef_ng g + SPEED_INCREMENT_ng;
            (obs1, k) = spawnObstacle_ng rnd (obstaclesRef_ng g);
            cs1 = spawnCoin_ng rnd k (coinsRef_ng g);
            obs2 = advanceObstacles_ng speed obs1;
            cs2 = advanceCoins_ng speed cs1;
            ph = playerHitbox_ng pl;
            (st, tested) = checkObstacles_ng ph obs2 (gameState_ng g);
            (cs3, n) = checkCoins_ng ph cs2;
            sr = scoreRef_ng g + 0.1
        in g\<lparr>lastTimeRef_ng := Some time, playerRef_ng := pl, gameSpeedRef_ng := speed,
              bgOffsetRef_ng := bgOffsetRef_ng g + speed, obstaclesRef_ng := obs2,
              coinsRef_ng := cs3, gameState_ng := st, coins_ng := coins_ng g + n,
              scoreRef_ng := sr, score_ng := \<lfloor>sr\<rfloor>\<rparr>)"

subsection \<open>Notions of the specification\<close>

text \<open>
  The projections of a hitbox on the two axes, open (the interior) and closed, and what
  makes a hitbox a rectangle: a positive width and a positive height.
\<close>

definition x_interval :: "hitbox \<Rightarrow> real set" where
  "x_interval a = {t. b_x a < t \<and> t < b_x a + b_w a}"

definition y_interval :: "hitbox \<Rightarrow> real set" where
  "y_interval a = {t. b_y a < t \<and> t < b_y a + b_h a}"

definition x_projection :: "hitbox \<Rightarrow> real set" where
  "x_projection a = {b_x a .. b_x a + b_w a}"

definition y_projection :: "hitbox \<Rightarrow> real set" where
  "y_projection a = {b_y a .. b_y a + b_h a}"

definition rectangle :: "hitbox \<Rightarrow> bool" where
  "rectangle a \<longleftrightarrow> 0 < b_w a \<and> 0 < b_h a"

text \<open>No entity at or below its prune threshold is left in the lists.\<close>

definition pruned :: "game \<Rightarrow> bool" where
  "pruned g \<longleftrightarrow>
     (\<forall>ob\<in>set (obstaclesRef g). - 200 < o_x ob) \<and> (\<forall>c\<in>set (coinsRef g). - 100 < c_x c)"

definition pruned_ng :: "game_ng \<Rightarrow> bool" where
  "pruned_ng g \<longleftrightarrow>
     (\<forall>ob\<in>set (obstaclesRef_ng g). - 100 < n_x ob) \<and>
     (\<forall>c\<in>set (coinsRef_ng g). - 100 < m_x c)"

text \<open>
  A callback is pending exactly in the state hit, and then it is the only one.
\<close>

definition settled :: "game \<Rightarrow> bool" where
  "settled g \<longleftrightarrow> timeouts g = (if gameState g = Hit then 1 else 0)"

text \<open>
  Each obstacle of the list is more than 500 to the right of every obstacle before it:
  500 is what lies between the bound 800 of the distance check and the least spawn
  position 1300.
\<close>

definition gapped :: "obstacle list \<Rightarrow> bool" where
  "gapped obs \<longleftrightarrow> sorted_wrt (\<lambda>a b. o_x b - o_x a > 500) obs"

text \<open>
  \<open>Math.random()\<close> returns a number from 0 on; of an event this is asked for the
  draw that offsets the position of a new obstacle.
\<close>

definition fair :: "event \<Rightarrow> bool" where
  "fair e = (case e of Tick time rnd \<Rightarrow> 0 \<le> rnd 2 | _ \<Rightarrow> True)"

subsection \<open>Example runs\<close>

text \<open>
  Two sequences of draws: with \<open>noSpawn\<close> neither spawner fires, with \<open>spawnBoth\<close>
  both do.
\<close>

definition noSpawn :: "nat \<Rightarrow> real" where
  "noSpawn k = 0.5"

definition spawnBoth :: "nat \<Rightarrow> real" where
  "spawnBoth k = 0.01"

definition airborne :: game where
  "airborne = initial\<lparr>playerRef := \<lparr>p_y = 40, p_dy = 3, grounded = False\<rparr>\<rparr>"

definition airborne_ng :: game_ng where
  "airborne_ng = initial_ng\<lparr>playerRef_ng := \<lparr>p_y = - 40, p_dy = - 3, grounded = False\<rparr>\<rparr>"

definition landing :: game where
  "landing = initial\<lparr>playerRef := \<lparr>p_y = 1, p_dy = - 4, grounded = False\<rparr>\<rparr>"

definition landing_ng :: game_ng where
  "landing_ng = initial_ng\<lparr>playerRef_ng := \<lparr>p_y = - 1, p_dy = 4, grounded = False\<rparr>\<rparr>"

text \<open>An obstacle and a coin that the next tick moves past their thresholds.\<close>

definition leaving :: game where
  "leaving = initial\<lparr>
     obstaclesRef := [\<lparr>o_id = 0, o_x = - 195, o_w = 50, o_h = 50, o_type = Rock\<rparr>,
                      \<lparr>o_id = 2, o_x = 600, o_w = 60, o_h = 50, o_type = Bush\<rparr>],
     coinsRef := [\<lparr>c_id = 1, c_x = - 95, c_y = 70, collected = False\<rparr>,
                  \<lparr>c_id = 3, c_x = 700, c_y = 160, collected = False\<rparr>],
     nextIdRef := 4\<rparr>"

definition leaving_ng :: game_ng where
  "leaving_ng = initial_ng\<lparr>
     obstaclesRef_ng := [\<lparr>n_x = - 98, n_w = 50, n_h = 50, n_type = RockNG\<rparr>,
                         \<lparr>n_x = 600, n_w = 50, n_h = 50, n_type = BushNG\<rparr>],
     coinsRef_ng := [\<lparr>m_x = - 98, m_y = - 50, m_collected = False\<rparr>,
                     \<lparr>m_x = 700, m_y = - 100, m_collected = False\<rparr>]\<rparr>"

text \<open>A rock right in front of the player.\<close>

definition crashing :: game where
  "crashing = initial\<lparr>
     obstaclesRef := [\<lparr>o_id = 0, o_x = 130, o_w = 50, o_h = 50, o_type = Rock\<rparr>],
     nextIdRef := 1\<rparr>"

text \<open>A bush still right of the bound 800 of the distance check.\<close>

definition crowded :: game where
  "crowded = initial\<lparr>
     obstaclesRef := [\<lparr>o_id = 0, o_x = 900, o_w = 60, o_h = 50, o_type = Bush\<rparr>],
     nextIdRef := 1\<rparr>"

text \<open>
  Runs of the basic version from its first render: \<open>ticks_ng n rnd\<close> is \<open>n\<close>
  animation frames in a row, each with the draws \<open>rnd\<close>. In \<open>before_crash_ng\<close> the
  first frame has spawned an obstacle and a coin, and 177 frames have moved them to the
  player.
\<close>

fun ticks_ng :: "nat \<Rightarrow> (nat \<Rightarrow> real) \<Rightarrow> game_ng \<Rightarrow> game_ng" where
  "ticks_ng 0 rnd g = g"
| "ticks_ng (Suc n) rnd g = ticks_ng n rnd (update_ng 0 rnd g)"

definition before_crash_ng :: game_ng where
  "before_crash_ng = ticks_ng 177 noSpawn (update_ng 0 spawnBoth initial_ng)"

text \<open>
  A run of the elaborate version on the page: a frame that spawns a rock and a coin,
  then frames without a spawn.
\<close>

definition approach :: "nat \<Rightarrow> event list" where
  "approach n = Tick 0 spawnBoth # replicate n (Tick 0 noSpawn)"

section \<open>Properties\<close>

subsection \<open>What a tick does to each part of the state\<close>

lemma update_not_playing: "gameState g \<noteq> Playing \<Longrightarrow> update time rnd g = g"
  by (simp add: update_def)

lemma update_player:
  "gameState g = Playing \<Longrightarrow> playerRef (update time rnd g) = physics (playerRef g)"
  by (simp add: update_def Let_def split: prod.splits option.splits)

lemma update_ng_player:
  "gameState_ng g = PlayingNG \<Longrightarrow>
   playerRef_ng (update_ng time rnd g) = physics_ng (playerRef_ng g)"
  by (simp add: update_ng_def Let_def split: prod.splits)

lemma update_obstacles:
  "gameState g = Playing \<Longrightarrow>
   obstaclesRef (update time rnd g) =
     advanceObstacles (gameSpeedRef g + SPEED_INCREMENT)
       (fst (spawnObstacle rnd (obstaclesRef g) (nextIdRef g)))"
  by (simp add: update_def Let_def split: prod.splits option.splits)

lemma update_coins:
  "gameState g = Playing \<Longrightarrow>
   coinsRef (update time rnd g) =
     (let speed = gameSpeedRef g + SPEED_INCREMENT;
          spawned = spawnObstacle rnd (obstaclesRef g) (nextIdRef g);
          cs2 = advanceCoins speed
                  (fst (spawnCoin rnd (snd (snd spawned)) (coinsRef g) (fst (snd spawned))));
          ph = playerHitbox (physics (playerRef g))
      in if checkObstacles ph (advanceObstacles speed (fst spawned)) = None
         then fst (checkCoins ph cs2) else cs2)"
  by (simp add: update_def Let_def split: prod.splits option.splits)

lemma update_ng_obstacles:
  "gameState_ng g = PlayingNG \<Longrightarrow>
   obstaclesRef_ng (update_ng time rnd g) =
     advanceObstacles_ng (gameSpeedRef_ng g + SPEED_INCREMENT_ng)
       (fst (spawnObstacle_ng rnd (obstaclesRef_ng g)))"
  by (simp add: update_ng_def Let_def split: prod.splits)

lemma update_ng_coins:
  "gameState_ng g = PlayingNG \<Longrightarrow>
   coinsRef_ng (update_ng time rnd g) =
     fst (checkCoins_ng (playerHitbox_ng (physics_ng (playerRef_ng g)))
       (advanceCoins_ng (gameSpeedRef_ng g + SPEED_INCREMENT_ng)
          (spawnCoin_ng rnd (snd (spawnObstacle_ng rnd (obstaclesRef_ng g))) (coinsRef_ng g))))"
  by (simp add: update_ng_def Let_def split: prod.splits)


text \<open>The definitions a concrete run is evaluated with.\<close>

lemmas run_defs =
  update_def physics_def spawnObstacle_def spawnCoin_def advanceObstacles_def
  advanceCoins_def playerHitbox_def obsHitbox_def coinHitbox_def overlaps_def
  setLastTime_def GRAVITY_def SPEED_INCREMENT_def initial_def noSpawn_def spawnBoth_def
  Let_def

lemmas run_ng_defs =
  update_ng_def physics_ng_def spawnObstacle_ng_def spawnCoin_ng_def
  advanceObstacles_ng_def advanceCoins_ng_def playerHitbox_ng_def obsHitbox_ng_def
  coinHitbox_ng_def overlaps_def GRAVITY_ng_def SPEED_INCREMENT_ng_def initial_ng_def
  noSpawn_def spawnBoth_def Let_def

subsection \<open>Physics\<close>

text \<open>
  C3. On a tick in the state playing the new velocity is the old velocity plus the
  gravity constant and the new position is the old position plus the new velocity; when
  that position is past the ground (below 0 in the elaborate version, above 0 in the
  basic one) the player ends at position 0 with velocity 0 and grounded, and otherwise
  grounded is as it was. This holds on the tick of a collision too.
\<close>

theorem physics_step:
  "(gameState g = Playing \<longrightarrow>
      playerRef (update time rnd g) =
        (if p_y (playerRef g) + (p_dy (playerRef g) + GRAVITY) < 0
         then \<lparr>p_y = 0, p_dy = 0, grounded = True\<rparr>
         else \<lparr>p_y = p_y (playerRef g) + (p_dy (playerRef g) + GRAVITY),
               p_dy = p_dy (playerRef g) + GRAVITY,
               grounded = grounded (playerRef g)\<rparr>)) \<and>
   (gameState_ng h = PlayingNG \<longrightarrow>
      playerRef_ng (update_ng time' rnd' h) =
        (if p_y (playerRef_ng h) + (p_dy (playerRef_ng h) + GRAVITY_ng) > 0
         then \<lparr>p_y = 0, p_dy = 0, grounded = True\<rparr>
         else \<lparr>p_y = p_y (playerRef_ng h) + (p_dy (playerRef_ng h) + GRAVITY_ng),
               p_dy = p_dy (playerRef_ng h) + GRAVITY_ng,
               grounded = grounded (playerRef_ng h)\<rparr>))"
  by (simp add: update_player update_ng_player physics_def physics_ng_def Let_def)

theorem physics_step_witness:
  "gameState airborne = Playing \<and>
   playerRef (update 16 noSpawn airborne) = \<lparr>p_y = 42.45, p_dy = 2.45, grounded = False\<rparr> \<and>
   gameState landing = Playing \<and>
   playerRef (update 16 noSpawn landing) = \<lparr>p_y = 0, p_dy = 0, grounded = True\<rparr> \<and>
   gameState_ng airborne_ng = PlayingNG \<and>
   playerRef_ng (update_ng 16 noSpawn airborne_ng) =
     \<lparr>p_y = - 42.4, p_dy = - 2.4, grounded = False\<rparr> \<and>
   gameState_ng landing_ng = PlayingNG \<and>
   playerRef_ng (update_ng 16 noSpawn landing_ng) = \<lparr>p_y = 0, p_dy = 0, grounded = True\<rparr>"
  using physics_step [where g = airborne and h = airborne_ng and time = 16 and time' = 16
      and rnd = noSpawn and rnd' = noSpawn]
    physics_step [where g = landing and h = landing_ng and time = 16 and time' = 16
      and rnd = noSpawn and rnd' = noSpawn]
  by (simp add: airborne_def airborne_ng_def landing_def landing_ng_def initial_def
      initial_ng_def GRAVITY_def GRAVITY_ng_def)

text \<open>
  C4. At the end of every tick in the state playing the height of the player above the
  ground is at least 0, from any state at all: \<open>y\<close> itself in the elaborate version,
  \<open>- y\<close> in the basic one, where \<open>y\<close> is negative above the ground.
\<close>

theorem ground_clamp:
  "(gameState g = Playing \<longrightarrow> 0 \<le> p_y (playerRef (update time rnd g))) \<and>
   (gameState_ng h = PlayingNG \<longrightarrow> 0 \<le> - p_y (playerRef_ng (update_ng time' rnd' h)))"
  by (simp add: update_player update_ng_player physics_def physics_ng_def Let_def)

theorem ground_clamp_witness:
  "gameState landing = Playing \<and> p_y (playerRef landing) + p_dy (playerRef landing) < 0 \<and>
   0 \<le> p_y (playerRef (update 16 noSpawn landing)) \<and>
   gameState_ng landing_ng = PlayingNG \<and>
   0 \<le> - p_y (playerRef_ng (update_ng 16 noSpawn landing_ng))"
  using ground_clamp [where g = landing and h = landing_ng and time = 16 and time' = 16
      and rnd = noSpawn and rnd' = noSpawn]
  by (simp add: landing_def landing_ng_def initial_def initial_ng_def)

subsection \<open>Jump and reset\<close>

text \<open>
  C5. When the player is grounded and the state is playing, \<open>handleJump\<close> sets the
  velocity to the jump constant and grounded to false and changes nothing else; in every
  other state it returns the state it was given. (The sound it plays is not part of the
  state.)
\<close>

theorem jump_iff:
  "(grounded (playerRef g) \<and> gameState g = Playing \<longrightarrow>
      handleJump g =
        g\<lparr>playerRef := \<lparr>p_y = p_y (playerRef g), p_dy = JUMP_FORCE, grounded = False\<rparr>\<rparr>) \<and>
   (\<not> (grounded (playerRef g) \<and> gameState g = Playing) \<longrightarrow> handleJump g = g) \<and>
   (grounded (playerRef_ng h) \<and> gameState_ng h = PlayingNG \<longrightarrow>
      handleJump_ng h =
        h\<lparr>playerRef_ng :=
            \<lparr>p_y = p_y (playerRef_ng h), p_dy = JUMP_FORCE_ng, grounded = False\<rparr>\<rparr>) \<and>
   (\<not> (grounded (playerRef_ng h) \<and> gameState_ng h = PlayingNG) \<longrightarrow> handleJump_ng h = h)"
  by (simp add: handleJump_def handleJump_ng_def)

theorem jump_iff_witness:
  "grounded (playerRef initial) \<and> gameState initial = Playing \<and>
   playerRef (handleJump initial) = \<lparr>p_y = 0, p_dy = 16, grounded = False\<rparr> \<and>
   \<not> grounded (playerRef airborne) \<and> handleJump airborne = airborne \<and>
   gameState (resetGame initial\<lparr>gameState := Hit\<rparr>) \<noteq> Playing \<and>
   handleJump (resetGame initial\<lparr>gameState := Hit\<rparr>) = resetGame initial\<lparr>gameState := Hit\<rparr> \<and>
   grounded (playerRef_ng initial_ng) \<and> gameState_ng initial_ng = PlayingNG \<and>
   playerRef_ng (handleJump_ng initial_ng) = \<lparr>p_y = 0, p_dy = - 12, grounded = False\<rparr> \<and>
   \<not> grounded (playerRef_ng airborne_ng) \<and> handleJump_ng airborne_ng = airborne_ng"
  using jump_iff [where g = initial and h = initial_ng]
    jump_iff [where g = airborne and h = airborne_ng]
    jump_iff [where g = "resetGame initial\<lparr>gameState := Hit\<rparr>" and h = initial_ng]
  by (simp add: initial_def initial_ng_def airborne_def airborne_ng_def resetGame_def
      JUMP_FORCE_def JUMP_FORCE_ng_def)

text \<open>
  C7. From every state \<open>resetGame\<close> gives score 0, coin count 0, empty lists of
  obstacles and coins, the player on the ground with velocity 0, the initial speed and
  the state playing; and a second \<open>resetGame\<close> changes nothing. (The refs
  \<open>lastTimeRef\<close> and \<open>nextIdRef\<close> and a pending timeout are not among these: reset
  leaves them as they are.)
\<close>

theorem reset_zeroed:
  "score (resetGame g) = 0 \<and> coins (resetGame g) = 0 \<and> scoreRef (resetGame g) = 0 \<and>
   obstaclesRef (resetGame g) = [] \<and> coinsRef (resetGame g) = [] \<and>
   playerRef (resetGame g) = \<lparr>p_y = 0, p_dy = 0, grounded = True\<rparr> \<and>
   gameSpeedRef (resetGame g) = gameSpeedRef initial \<and>
   gameState (resetGame g) = Playing \<and>
   resetGame (resetGame g) = resetGame g \<and>
   score_ng (resetGame_ng h) = 0 \<and> coins_ng (resetGame_ng h) = 0 \<and>
   scoreRef_ng (resetGame_ng h) = 0 \<and>
   obstaclesRef_ng (resetGame_ng h) = [] \<and> coinsRef_ng (resetGame_ng h) = [] \<and>
   playerRef_ng (resetGame_ng h) = \<lparr>p_y = 0, p_dy = 0, grounded = True\<rparr> \<and>
   gameSpeedRef_ng (resetGame_ng h) = gameSpeedRef_ng initial_ng \<and>
   gameState_ng (resetGame_ng h) = PlayingNG \<and>
   resetGame_ng (resetGame_ng h) = resetGame_ng h"
  by (simp add: resetGame_def resetGame_ng_def initial_def initial_ng_def)

theorem reset_zeroed_witness:
  "resetGame (fireTimeout (update 16 noSpawn crashing)) = initial\<lparr>lastTimeRef := Some 16, nextIdRef := 1\<rparr> \<and>
   resetGame (resetGame (fireTimeout (update 16 noSpawn crashing))) =
     resetGame (fireTimeout (update 16 noSpawn crashing)) \<and>
   resetGame_ng (update_ng 16 spawnBoth leaving_ng) = initial_ng\<lparr>lastTimeRef_ng := Some 16\<rparr>"
  using reset_zeroed [where g = "fireTimeout (update 16 noSpawn crashing)"
      and h = "update_ng 16 spawnBoth leaving_ng"]
  by (simp add: resetGame_def resetGame_ng_def fireTimeout_def crashing_def leaving_ng_def
      run_defs run_ng_defs)

subsection \<open>The timestamp\<close>

text \<open>
  C10. Two ticks from the same state with the same draws and different timestamps end in
  states that differ in \<open>lastTimeRef\<close> at most: player, lists, speed, score and coin
  count are the same.
\<close>

theorem update_ignores_time:
  "update t1 rnd g = (update t2 rnd g)\<lparr>lastTimeRef := lastTimeRef (update t1 rnd g)\<rparr> \<and>
   update_ng t1 rnd' h =
     (update_ng t2 rnd' h)\<lparr>lastTimeRef_ng := lastTimeRef_ng (update_ng t1 rnd' h)\<rparr>"
  by (simp add: update_def update_ng_def Let_def split: prod.splits option.splits)

theorem update_ignores_time_witness:
  "update 16 spawnBoth leaving = (update 5000 spawnBoth leaving)\<lparr>lastTimeRef := Some 16\<rparr> \<and>
   lastTimeRef (update 5000 spawnBoth leaving) = Some 5000 \<and>
   update_ng 16 spawnBoth leaving_ng =
     (update_ng 5000 spawnBoth leaving_ng)\<lparr>lastTimeRef_ng := Some 16\<rparr> \<and>
   lastTimeRef_ng (update_ng 5000 spawnBoth leaving_ng) = Some 5000"
  using update_ignores_time [where ?t1.0 = 16 and ?t2.0 = 5000 and rnd = spawnBoth
      and rnd' = spawnBoth and g = leaving and h = leaving_ng]
  by (simp add: leaving_def leaving_ng_def run_defs run_ng_defs)

subsection \<open>The collision test\<close>

lemma open_meet:
  fixes a b c d :: real
  assumes "a < b" and "c < d"
  shows "{t. a < t \<and> t < b} \<inter> {t. c < t \<and> t < d} \<noteq> {} \<longleftrightarrow> a < d \<and> c < b"
proof
  assume "{t. a < t \<and> t < b} \<inter> {t. c < t \<and> t < d} \<noteq> {}"
  then obtain t where "a < t" "t < b" "c < t" "t < d" by auto
  then show "a < d \<and> c < b" by linarith
next
  assume h: "a < d \<and> c < b"
  let ?t = "(max a c + min b d) / 2"
  have "max a c < min b d" using assms h by simp
  then have "a < ?t \<and> ?t < b \<and> c < ?t \<and> ?t < d"
    by (auto simp: max_def min_def split: if_splits)
  then have "?t \<in> {t. a < t \<and> t < b} \<inter> {t. c < t \<and> t < d}" by simp
  then show "{t. a < t \<and> t < b} \<inter> {t. c < t \<and> t < d} \<noteq> {}" by blast
qed

text \<open>The hitboxes of the player and of a coin, and of an obstacle the spawner makes.\<close>

lemma built_rectangles:
  "rectangle (playerHitbox p) \<and> rectangle (coinHitbox c) \<and>
   rectangle (playerHitbox_ng p) \<and> rectangle (coinHitbox_ng c') \<and>
   (\<forall>ob\<in>set (fst (spawnObstacle rnd obs nid)). ob \<in> set obs \<or> rectangle (obsHitbox ob)) \<and>
   (\<forall>ob\<in>set (fst (spawnObstacle_ng rnd obs')). ob \<in> set obs' \<or> rectangle (obsHitbox_ng ob))"
  by (auto simp: rectangle_def playerHitbox_def coinHitbox_def playerHitbox_ng_def
      coinHitbox_ng_def obsHitbox_def obsHitbox_ng_def spawnObstacle_def spawnObstacle_ng_def
      Let_def split: if_splits)

text \<open>
  C6. For two rectangles the test registers a collision exactly when their intervals
  on the x axis meet and their intervals on the y axis meet, the intervals being the
  open ones (two rectangles that only touch do not collide). Rectangles whose
  projections on one axis are disjoint, even as closed intervals, never collide, and
  rectangles that overlap on both axes always do. The test is a function of the two
  hitboxes alone.
\<close>

theorem overlaps_intervals:
  assumes "rectangle a" and "rectangle b"
  shows "(overlaps a b \<longleftrightarrow>
            x_interval a \<inter> x_interval b \<noteq> {} \<and> y_interval a \<inter> y_interval b \<noteq> {}) \<and>
         (x_projection a \<inter> x_projection b = {} \<or> y_projection a \<inter> y_projection b = {}
            \<longrightarrow> \<not> overlaps a b)"
proof -
  have ax: "b_x a < b_x a + b_w a" and ay: "b_y a < b_y a + b_h a"
    and bx: "b_x b < b_x b + b_w b" and by': "b_y b < b_y b + b_h b"
    using assms by (simp_all add: rectangle_def)
  have 1: "overlaps a b \<longleftrightarrow>
            x_interval a \<inter> x_interval b \<noteq> {} \<and> y_interval a \<inter> y_interval b \<noteq> {}"
    unfolding x_interval_def y_interval_def open_meet[OF ax bx] open_meet[OF ay by']
    by (auto simp: overlaps_def)
  have 2: "\<not> overlaps a b" if "x_projection a \<inter> x_projection b = {}"
  proof
    assume "overlaps a b"
    then have "b_x a < b_x b + b_w b" "b_x b < b_x a + b_w a" by (simp_all add: overlaps_def)
    then have "max (b_x a) (b_x b) \<in> x_projection a \<inter> x_projection b"
      using ax bx by (simp add: x_projection_def)
    with that show False by blast
  qed
  have 3: "\<not> overlaps a b" if "y_projection a \<inter> y_projection b = {}"
  proof
    assume "overlaps a b"
    then have "b_y a < b_y b + b_h b" "b_y b < b_y a + b_h a" by (simp_all add: overlaps_def)
    then have "max (b_y a) (b_y b) \<in> y_projection a \<inter> y_projection b"
      using ay by' by (simp add: y_projection_def)
    with that show False by blast
  qed
  from 1 2 3 show ?thesis by blast
qed

text \<open>
  The player on the ground against the rock of \<open>crashing\<close>, which it overlaps, and
  against the far bush of \<open>leaving\<close>, which it does not.
\<close>

theorem overlaps_intervals_witness:
  "rectangle (playerHitbox (playerRef initial)) \<and>
   rectangle (obsHitbox (hd (obstaclesRef crashing))) \<and>
   rectangle (obsHitbox (last (obstaclesRef leaving))) \<and>
   x_interval (playerHitbox (playerRef initial)) \<inter>
     x_interval (obsHitbox (hd (obstaclesRef crashing))) \<noteq> {} \<and>
   y_interval (playerHitbox (playerRef initial)) \<inter>
     y_interval (obsHitbox (hd (obstaclesRef crashing))) \<noteq> {} \<and>
   x_projection (playerHitbox (playerRef initial)) \<inter>
     x_projection (obsHitbox (last (obstaclesRef leaving))) = {} \<and>
   \<not> overlaps (playerHitbox (playerRef initial)) (obsHitbox (last (obstaclesRef leaving)))"
proof -
  let ?p = "playerHitbox (playerRef initial)"
  let ?r = "obsHitbox (hd (obstaclesRef crashing))"
  let ?b = "obsHitbox (last (obstaclesRef leaving))"
  have rp: "rectangle ?p" by (simp add: rectangle_def playerHitbox_def)
  have rr: "rectangle ?r" by (simp add: rectangle_def obsHitbox_def crashing_def)
  have rb: "rectangle ?b" by (simp add: rectangle_def obsHitbox_def leaving_def)
  have hit: "overlaps ?p ?r"
    by (simp add: overlaps_def playerHitbox_def obsHitbox_def crashing_def initial_def)
  have far: "x_projection ?p \<inter> x_projection ?b = {}"
    by (simp add: x_projection_def playerHitbox_def obsHitbox_def leaving_def initial_def)
  from overlaps_intervals [OF rp rr] hit overlaps_intervals [OF rp rb] far rp rr rb
  show ?thesis by blast
qed

subsection \<open>Pruning\<close>

lemma advanceObstacles_pruned: "ob \<in> set (advanceObstacles speed obs) \<Longrightarrow> - 200 < o_x ob"
  by (simp add: advanceObstacles_def)

lemma checkCoins_pruned:
  "\<forall>c\<in>set cs. - 100 < c_x c \<Longrightarrow> \<forall>c\<in>set (fst (checkCoins ph cs)). - 100 < c_x c"
  by (induction cs) (auto simp: Let_def split: prod.splits)

lemma checkCoins_ng_pruned:
  "\<forall>c\<in>set cs. - 100 < m_x c \<Longrightarrow> \<forall>c\<in>set (fst (checkCoins_ng ph cs)). - 100 < m_x c"
  by (induction cs) (auto simp: Let_def split: prod.splits)

lemma update_pruned:
  assumes "gameState g = Playing"
  shows "pruned (update time rnd g)"
proof -
  have 1: "\<forall>ob\<in>set (obstaclesRef (update time rnd g)). - 200 < o_x ob"
    by (simp only: update_obstacles[OF assms]) (simp add: advanceObstacles_pruned)
  have 2: "\<forall>c\<in>set (coinsRef (update time rnd g)). - 100 < c_x c"
  proof -
    have a: "\<forall>c\<in>set (advanceCoins speed cs). - 100 < c_x c" for speed cs
      by (simp add: advanceCoins_def)
    show ?thesis
      unfolding update_coins[OF assms] Let_def
      using a checkCoins_pruned[OF a] by (simp split: if_splits)
  qed
  from 1 2 show ?thesis by (simp add: pruned_def)
qed

lemma update_ng_pruned:
  assumes "gameState_ng g = PlayingNG"
  shows "pruned_ng (update_ng time rnd g)"
proof -
  have 1: "\<forall>ob\<in>set (obstaclesRef_ng (update_ng time rnd g)). - 100 < n_x ob"
    by (simp only: update_ng_obstacles[OF assms]) (simp add: advanceObstacles_ng_def)
  have 2: "\<forall>c\<in>set (coinsRef_ng (update_ng time rnd g)). - 100 < m_x c"
    unfolding update_ng_coins[OF assms]
    by (rule checkCoins_ng_pruned) (simp add: advanceCoins_ng_def)
  from 1 2 show ?thesis by (simp add: pruned_ng_def)
qed

lemma step_pruned: "pruned g \<Longrightarrow> pruned (step e g)"
proof (cases e)
  case (Tick time rnd)
  assume "pruned g"
  then show ?thesis
    by (cases "gameState g = Playing") (simp_all add: Tick update_pruned update_not_playing)
next
  case Jump
  assume "pruned g"
  then show ?thesis by (simp add: Jump handleJump_def pruned_def)
next
  case Reset
  assume "pruned g"
  then show ?thesis by (simp add: Reset resetGame_def pruned_def)
next
  case Timeout
  assume "pruned g"
  then show ?thesis by (simp add: Timeout fireTimeout_def pruned_def)
qed

text \<open>
  C8. After a tick in the state playing every obstacle of the list is right of its
  threshold (- 200 in the elaborate version, - 100 in the basic one) and every coin is
  right of - 100; an entity at the threshold itself is removed too. No later event
  breaks this before the next tick begins: a jump, a reset, a timeout and a further
  tick all keep it.
\<close>

theorem pruned_after_tick:
  "(gameState g = Playing \<longrightarrow> pruned (update time rnd g)) \<and>
   (pruned g \<longrightarrow> pruned (step e g)) \<and>
   (gameState_ng h = PlayingNG \<longrightarrow> pruned_ng (update_ng time' rnd' h)) \<and>
   (pruned_ng h \<longrightarrow>
      pruned_ng (handleJump_ng h) \<and> pruned_ng (resetGame_ng h) \<and>
      pruned_ng (update_ng time' rnd' h))"
proof -
  have "pruned_ng (update_ng time' rnd' h)" if "pruned_ng h"
  proof (cases "gameState_ng h = PlayingNG")
    case True
    then show ?thesis by (rule update_ng_pruned)
  next
    case False
    with that show ?thesis by (simp add: update_ng_def)
  qed
  moreover have "pruned_ng (handleJump_ng h) \<and> pruned_ng (resetGame_ng h)" if "pruned_ng h"
    using that by (simp add: handleJump_ng_def resetGame_ng_def pruned_ng_def)
  ultimately show ?thesis
    using update_pruned update_ng_pruned step_pruned by blast
qed

theorem pruned_after_tick_witness:
  "gameState leaving = Playing \<and>
   map o_x (obstaclesRef (update 16 noSpawn leaving)) = [592.9995] \<and>
   map c_x (coinsRef (update 16 noSpawn leaving)) = [692.9995] \<and>
   pruned (update 16 noSpawn leaving) \<and>
   pruned (step Jump (update 16 noSpawn leaving)) \<and>
   gameState_ng leaving_ng = PlayingNG \<and>
   map n_x (obstaclesRef_ng (update_ng 16 noSpawn leaving_ng)) = [594.999] \<and>
   pruned_ng (update_ng 16 noSpawn leaving_ng) \<and>
   pruned_ng (handleJump_ng (update_ng 16 noSpawn leaving_ng))"
proof -
  have p: "gameState leaving = Playing" by (simp add: leaving_def initial_def)
  have q: "gameState_ng leaving_ng = PlayingNG" by (simp add: leaving_ng_def initial_ng_def)
  have "map o_x (obstaclesRef (update 16 noSpawn leaving)) = [592.9995]"
    and "map c_x (coinsRef (update 16 noSpawn leaving)) = [692.9995]"
    by (simp_all add: leaving_def run_defs)
  moreover have "map n_x (obstaclesRef_ng (update_ng 16 noSpawn leaving_ng)) = [594.999]"
    by (simp add: leaving_ng_def run_ng_defs)
  moreover note p q
    pruned_after_tick [where g = leaving and h = leaving_ng and time = 16 and time' = 16
      and rnd = noSpawn and rnd' = noSpawn]
    pruned_after_tick [where g = "update 16 noSpawn leaving" and e = Jump
      and h = "update_ng 16 noSpawn leaving_ng"]
  ultimately show ?thesis by simp
qed

subsection \<open>The obstacle spawner\<close>

lemma spawnObstacle_accept:
  assumes "rnd 0 < 0.015" and "obs = [] \<or> o_x (last obs) < 800"
  shows "\<exists>new. spawnObstacle rnd obs nid = (obs @ [new], nid + 1, 3) \<and>
           o_id new = nid \<and> o_x new = 1300 + rnd 2 * 300"
  using assms by (simp add: spawnObstacle_def Let_def)

lemma spawnObstacle_reject:
  assumes "\<not> (rnd 0 < 0.015 \<and> (obs = [] \<or> o_x (last obs) < 800))"
  shows "fst (spawnObstacle rnd obs nid) = obs \<and> fst (snd (spawnObstacle rnd obs nid)) = nid"
  using assms by (auto simp: spawnObstacle_def Let_def split: prod.splits)

lemma gapped_last: "gapped obs \<Longrightarrow> a \<in> set obs \<Longrightarrow> o_x a \<le> o_x (last obs)"
proof (induction obs)
  case Nil
  then show ?case by simp
next
  case (Cons b obs)
  show ?case
  proof (cases "obs = []")
    case True
    with Cons.prems show ?thesis by simp
  next
    case False
    then have l: "last obs \<in> set obs" by simp
    from Cons.prems(1) have g: "gapped obs" and lt: "\<forall>c\<in>set obs. o_x c - o_x b > 500"
      by (simp_all add: gapped_def)
    show ?thesis
    proof (cases "a = b")
      case True
      with lt l False show ?thesis by fastforce
    next
      case False
      with Cons.prems(2) have "a \<in> set obs" by simp
      with Cons.IH g \<open>obs \<noteq> []\<close> show ?thesis by simp
    qed
  qed
qed

lemma gapped_advance: "gapped obs \<Longrightarrow> gapped (advanceObstacles speed obs)"
  unfolding gapped_def advanceObstacles_def
  by (rule sorted_wrt_filter) (simp add: sorted_wrt_map)

lemma gapped_spawn:
  assumes "gapped obs" and "0 \<le> rnd 2"
  shows "gapped (fst (spawnObstacle rnd obs nid))"
proof -
  have app: "gapped (obs @ [new])"
    if "obs = [] \<or> o_x (last obs) < 800" and "1300 \<le> o_x new" for new
  proof (cases "obs = []")
    case True
    then show ?thesis by (simp add: gapped_def)
  next
    case False
    with that have "o_x (last obs) < 800" by simp
    with gapped_last[OF assms(1)] have "\<forall>a\<in>set obs. o_x a < 800" by fastforce
    with that(2) have "\<forall>a\<in>set obs. o_x new - o_x a > 500" by fastforce
    with assms(1) show ?thesis by (simp add: gapped_def sorted_wrt_append)
  qed
  show ?thesis
  proof (cases "rnd 0 < 0.015 \<and> (obs = [] \<or> o_x (last obs) < 800)")
    case True
    then obtain new where "fst (spawnObstacle rnd obs nid) = obs @ [new]"
      and "o_x new = 1300 + rnd 2 * 300"
      using spawnObstacle_accept[of rnd obs nid] by force
    with app[of new] True assms(2) show ?thesis by simp
  next
    case False
    then have "fst (spawnObstacle rnd obs nid) = obs"
      by (simp add: spawnObstacle_reject)
    with assms(1) show ?thesis by simp
  qed
qed

text \<open>
  C9, as the code has it. In the elaborate version a successful draw appends an
  obstacle only when the list is empty or its last obstacle is left of 800; with that
  obstacle at 800 or beyond the spawn is rejected. The new obstacle is at 1300 or
  beyond, so more than 500 right of the last one, and the obstacles of the list stay
  more than 500 apart from tick to tick. \<open>0 \<le> rnd 2\<close> is what \<open>Math.random()\<close>
  guarantees of the draw that offsets the spawn position. The basic version has no
  such check (see \<open>spawn_ng_no_gap\<close>).
\<close>

theorem spawn_gap:
  assumes "0 \<le> rnd 2"
  shows "(rnd 0 < 0.015 \<and> obs \<noteq> [] \<and> 800 \<le> o_x (last obs) \<longrightarrow>
            fst (spawnObstacle rnd obs nid) = obs) \<and>
         (fst (spawnObstacle rnd obs nid) \<noteq> obs \<longrightarrow>
            rnd 0 < 0.015 \<and>
            (\<exists>new. fst (spawnObstacle rnd obs nid) = obs @ [new] \<and> 1300 \<le> o_x new \<and>
               (obs \<noteq> [] \<longrightarrow> o_x (last obs) < 800 \<and> 500 < o_x new - o_x (last obs)))) \<and>
         (gameState g = Playing \<and> gapped (obstaclesRef g) \<longrightarrow>
            gapped (obstaclesRef (update time rnd g)))"
proof -
  have 1: "fst (spawnObstacle rnd obs nid) = obs"
    if "rnd 0 < 0.015 \<and> obs \<noteq> [] \<and> 800 \<le> o_x (last obs)"
    using that by (simp add: spawnObstacle_reject)
  have 2: "rnd 0 < 0.015 \<and>
      (\<exists>new. fst (spawnObstacle rnd obs nid) = obs @ [new] \<and> 1300 \<le> o_x new \<and>
         (obs \<noteq> [] \<longrightarrow> o_x (last obs) < 800 \<and> 500 < o_x new - o_x (last obs)))"
    if ne: "fst (spawnObstacle rnd obs nid) \<noteq> obs"
  proof -
    from ne spawnObstacle_reject[of rnd obs nid]
    have acc: "rnd 0 < 0.015" "obs = [] \<or> o_x (last obs) < 800" by blast+
    from spawnObstacle_accept[of rnd obs nid] acc obtain new
      where new: "fst (spawnObstacle rnd obs nid) = obs @ [new]" "o_x new = 1300 + rnd 2 * 300"
      by force
    from new(2) assms have far: "1300 \<le> o_x new" by simp
    have "o_x (last obs) < 800 \<and> 500 < o_x new - o_x (last obs)" if "obs \<noteq> []"
      using that acc(2) far by simp
    with acc(1) new(1) far show ?thesis by blast
  qed
  have 3: "gapped (obstaclesRef (update time rnd g))"
    if "gameState g = Playing \<and> gapped (obstaclesRef g)"
    using that assms by (simp add: update_obstacles gapped_advance gapped_spawn)
  from 1 2 3 show ?thesis by blast
qed

theorem spawn_gap_witness:
  "0 \<le> spawnBoth 2 \<and> spawnBoth 0 < 0.015 \<and>
   map o_x (obstaclesRef crowded) = [900] \<and>
   fst (spawnObstacle spawnBoth (obstaclesRef crowded) 1) = obstaclesRef crowded \<and>
   map o_x (obstaclesRef leaving) = [- 195, 600] \<and>
   map o_x (fst (spawnObstacle spawnBoth (obstaclesRef leaving) 4)) = [- 195, 600, 1303] \<and>
   gameState leaving = Playing \<and> gapped (obstaclesRef leaving) \<and>
   map o_x (obstaclesRef (update 16 spawnBoth leaving)) = [592.9995, 1295.9995] \<and>
   gapped (obstaclesRef (update 16 spawnBoth leaving))"
proof -
  have r: "0 \<le> spawnBoth 2" by (simp add: spawnBoth_def)
  have a: "map o_x (obstaclesRef crowded) = [900]"
    and b: "map o_x (obstaclesRef leaving) = [- 195, 600]"
    and c: "map o_x (fst (spawnObstacle spawnBoth (obstaclesRef leaving) 4)) = [- 195, 600, 1303]"
    and d: "gameState leaving = Playing" and e: "gapped (obstaclesRef leaving)"
    and f: "map o_x (obstaclesRef (update 16 spawnBoth leaving)) = [592.9995, 1295.9995]"
    and g: "spawnBoth 0 < 0.015"
    by (simp_all add: crowded_def leaving_def gapped_def run_defs)
  have h: "obstaclesRef crowded \<noteq> [] \<and> 800 \<le> o_x (last (obstaclesRef crowded))"
    by (simp add: crowded_def initial_def)
  from spawn_gap [where rnd = spawnBoth and obs = "obstaclesRef crowded" and nid = 1
      and g = leaving and time = 16] r a b c d e f g h
  show ?thesis by simp
qed

text \<open>So on the page, with fair draws, the obstacles are more than 500 apart at all times.\<close>

lemma gapped_ui_step:
  assumes "gapped (obstaclesRef g)" and "fair e"
  shows "gapped (obstaclesRef (ui_step g e))"
proof (cases e)
  case (Tick time rnd)
  with assms(2) have r: "0 \<le> rnd 2" by (simp add: fair_def)
  show ?thesis
  proof (cases "gameState g = Playing")
    case True
    with assms(1) r show ?thesis
      by (simp add: ui_step_def Tick update_obstacles gapped_advance gapped_spawn)
  next
    case False
    with assms(1) show ?thesis by (simp add: ui_step_def Tick update_not_playing)
  qed
next
  case Jump
  with assms(1) show ?thesis by (simp add: ui_step_def handleJump_def)
next
  case Reset
  then show ?thesis using assms(1) by (simp add: ui_step_def resetGame_def gapped_def)
next
  case Timeout
  with assms(1) show ?thesis by (simp add: ui_step_def fireTimeout_def)
qed

lemma gapped_ui_run: "\<forall>e\<in>set es. fair e \<Longrightarrow> gapped (obstaclesRef (ui_run es))"
proof (induction es rule: rev_induct)
  case Nil
  show ?case by (simp add: ui_run_def initial_def gapped_def)
next
  case (snoc e es)
  then show ?case by (simp add: ui_run_def gapped_ui_step)
qed

text \<open>
  The spawner of the basic version: every successful draw appends an obstacle at 1000,
  whatever the list holds, and a failed draw leaves the list as it is.
\<close>

lemma spawnObstacle_ng_always:
  "(rnd 0 < 0.015 \<longrightarrow>
      (\<exists>new. fst (spawnObstacle_ng rnd obs) = obs @ [new] \<and> n_x new = 1000)) \<and>
   (\<not> rnd 0 < 0.015 \<longrightarrow> fst (spawnObstacle_ng rnd obs) = obs)"
  by (simp add: spawnObstacle_ng_def)

text \<open>
  The basic version: two frames in a row whose draws succeed put two obstacles 5.001
  apart, a tenth of an obstacle's width. The second one is appended with the first one
  at 994.999, next to the spawn position 1000; the spawner appends even with the last
  obstacle at 1000 itself.
\<close>

theorem spawn_ng_no_gap:
  "map n_x (obstaclesRef_ng (update_ng 16 spawnBoth initial_ng)) = [994.999] \<and>
   map n_x (fst (spawnObstacle_ng spawnBoth
      (obstaclesRef_ng (update_ng 16 spawnBoth initial_ng)))) = [994.999, 1000] \<and>
   map n_x (fst (spawnObstacle_ng spawnBoth
      [\<lparr>n_x = 1000, n_w = 50, n_h = 50, n_type = RockNG\<rparr>])) = [1000, 1000] \<and>
   map n_x (obstaclesRef_ng (update_ng 32 spawnBoth (update_ng 16 spawnBoth initial_ng))) =
     [989.997, 994.998]"
  by (simp add: run_ng_defs)

subsection \<open>The deferred game over\<close>


text \<open>
  A reset while playing keeps the invariant too: a second click on the button while the
  modal fades out changes nothing here.
\<close>

lemma settled_reset: "settled g \<Longrightarrow> gameState g \<noteq> Hit \<Longrightarrow> settled (resetGame g)"
  by (simp add: settled_def resetGame_def)



text \<open>
  The run \<open>approach 164\<close>, evaluated: 165 frames after the first render the rock is
  at 141.1525, just right of the player's hitbox, and nothing has happened yet.
\<close>

lemma approach_164:
  "ui_run (approach 164) =
     \<lparr>gameState = Playing, score = 24, coins = 0,
      playerRef = \<lparr>p_y = 0, p_dy = 0, grounded = True\<rparr>,
      obstaclesRef = [\<lparr>o_id = 0, o_x = 56461 / 400, o_w = 50, o_h = 50, o_type = Rock\<rparr>],
      coinsRef = [\<lparr>c_id = 1, c_x = 55261 / 400, c_y = 70, collected = False\<rparr>],
      gameSpeedRef = 2833 / 400, scoreRef = 99 / 4, lastTimeRef = Some 0,
      bgOffsetRef = 464739 / 400, nextIdRef = 2, timeouts = 0\<rparr>"
  by (simp add: run_defs ui_run_def ui_step_def approach_def eval_nat_numeral)

lemma approach_Suc: "ui_run (approach (Suc n)) = update 0 noSpawn (ui_run (approach n))"
proof -
  have "approach (Suc n) = approach n @ [Tick 0 noSpawn]"
    by (simp add: approach_def replicate_append_same)
  then show ?thesis by (simp add: ui_run_def ui_step_def)
qed

lemma approach_165:
  "ui_run (approach 165) =
     \<lparr>gameState = Hit, score = 24, coins = 0,
      playerRef = \<lparr>p_y = 0, p_dy = 0, grounded = True\<rparr>,
      obstaclesRef = [\<lparr>o_id = 0, o_x = 268139 / 2000, o_w = 50, o_h = 50, o_type = Rock\<rparr>],
      coinsRef = [\<lparr>c_id = 1, c_x = 262139 / 2000, c_y = 70, collected = False\<rparr>],
      gameSpeedRef = 7083 / 1000, scoreRef = 99 / 4, lastTimeRef = Some 0,
      bgOffsetRef = 2337861 / 2000, nextIdRef = 2, timeouts = 1\<rparr>"
proof -
  have "ui_run (approach 165) = update 0 noSpawn (ui_run (approach 164))"
    using approach_Suc [of 164] by simp
  then show ?thesis by (simp add: approach_164 run_defs)
qed





text \<open>
  \<open>resetGame\<close> by itself, outside the runs of the page: were it called in the state
  hit, which the page never does, the callback would stay pending and would end the
  new run. Nothing in \<open>resetGame\<close> prevents that; the page does.
\<close>

lemma resetGame_in_hit:
  "gameState (ui_run (approach 165)) = Hit \<and>
   gameState (step Reset (ui_run (approach 165))) = Playing \<and>
   timeouts (step Reset (ui_run (approach 165))) = 1 \<and>
   gameState (step Timeout (step Reset (ui_run (approach 165)))) = GameOver"
  by (simp add: approach_165 resetGame_def fireTimeout_def)

subsection \<open>The tick of a collision\<close>

lemma checkObstacles_None:
  "checkObstacles ph obs = None \<longleftrightarrow> (\<forall>ob\<in>set obs. \<not> overlaps ph (obsHitbox ob))"
  by (induction obs) auto

text \<open>
  The loop of the elaborate version stops at the first obstacle, in the order of the
  list, that overlaps: it has tested that one and the ones before it.
\<close>

lemma checkObstacles_first:
  "checkObstacles ph obs = Some (ob, n) \<Longrightarrow>
     0 < n \<and> n \<le> length obs \<and> obs ! (n - 1) = ob \<and> overlaps ph (obsHitbox ob) \<and>
     (\<forall>i<n - 1. \<not> overlaps ph (obsHitbox (obs ! i)))"
proof (induction obs arbitrary: n)
  case Nil
  then show ?case by simp
next
  case (Cons a obs)
  show ?case
  proof (cases "overlaps ph (obsHitbox a)")
    case True
    with Cons.prems show ?thesis by simp
  next
    case False
    with Cons.prems obtain m where m: "checkObstacles ph obs = Some (ob, m)" and n: "n = m + 1"
      by auto
    from Cons.IH[OF m] have ih: "0 < m" "m \<le> length obs" "obs ! (m - 1) = ob"
      "overlaps ph (obsHitbox ob)" "\<forall>i<m - 1. \<not> overlaps ph (obsHitbox (obs ! i))"
      by blast+
    have "\<not> overlaps ph (obsHitbox ((a # obs) ! i))" if "i < n - 1" for i
    proof (cases i)
      case 0
      with False show ?thesis by simp
    next
      case (Suc j)
      with that n ih(1) have "j < m - 1" by simp
      with ih(5) Suc show ?thesis by simp
    qed
    with ih n show ?thesis by simp
  qed
qed

text \<open>
  The elaborate version returns at the collision: the state hit and one more pending
  timeout, and neither the coins nor the score have been touched. The coins are the
  ones the tick has spawned and shifted, none of them newly marked.
\<close>

lemma update_collision_aborts:
  assumes "gameState g = Playing"
    and "\<exists>ob\<in>set (obstaclesRef (update time rnd g)).
           overlaps (playerHitbox (playerRef (update time rnd g))) (obsHitbox ob)"
  shows "gameState (update time rnd g) = Hit \<and>
         timeouts (update time rnd g) = timeouts g + 1 \<and>
         coins (update time rnd g) = coins g \<and>
         score (update time rnd g) = score g \<and>
         scoreRef (update time rnd g) = scoreRef g \<and>
         coinsRef (update time rnd g) =
           advanceCoins (gameSpeedRef g + SPEED_INCREMENT)
             (fst (spawnCoin rnd (snd (snd (spawnObstacle rnd (obstaclesRef g) (nextIdRef g))))
                (coinsRef g) (fst (snd (spawnObstacle rnd (obstaclesRef g) (nextIdRef g))))))"
proof -
  let ?speed = "gameSpeedRef g + SPEED_INCREMENT"
  obtain obs1 nid1 k where sp: "spawnObstacle rnd (obstaclesRef g) (nextIdRef g) = (obs1, nid1, k)"
    by (rule prod_cases3)
  obtain cs1 nid2 where sc: "spawnCoin rnd k (coinsRef g) nid1 = (cs1, nid2)"
    by (rule prod.exhaust)
  from assms have "checkObstacles (playerHitbox (physics (playerRef g)))
      (advanceObstacles ?speed obs1) \<noteq> None"
    by (simp add: update_player update_obstacles checkObstacles_None sp)
  then obtain hit where "checkObstacles (playerHitbox (physics (playerRef g)))
      (advanceObstacles ?speed obs1) = Some hit"
    by blast
  with assms(1) show ?thesis
    by (simp add: update_def Let_def sp sc)
qed

text \<open>
  The loop of the basic version tests every obstacle, whatever it has found, and the
  state is gameover if one of them overlaps.
\<close>

lemma checkObstacles_ng_all:
  "checkObstacles_ng ph obs st =
     (if \<exists>ob\<in>set obs. overlaps ph (obsHitbox_ng ob) then GameOverNG else st, length obs)"
  by (induction obs arbitrary: st) (auto simp: Let_def)

text \<open>
  The run \<open>before_crash_ng\<close>, evaluated: 178 frames after the first render the bush
  and the coin are at 94.069, just right of the player's hitbox, which ends at 90.
\<close>

lemma before_crash_ng_eq:
  "before_crash_ng =
     \<lparr>gameState_ng = PlayingNG, score_ng = 17, coins_ng = 0,
      playerRef_ng = \<lparr>p_y = 0, p_dy = 0, grounded = True\<rparr>,
      obstaclesRef_ng = [\<lparr>n_x = 94069 / 1000, n_w = 50, n_h = 50, n_type = BushNG\<rparr>],
      coinsRef_ng = [\<lparr>m_x = 94069 / 1000, m_y = - 50, m_collected = False\<rparr>],
      gameSpeedRef_ng = 2589 / 500, scoreRef_ng = 89 / 5, lastTimeRef_ng = Some 0,
      bgOffsetRef_ng = 905931 / 1000\<rparr>"
  by (simp add: run_ng_defs before_crash_ng_def eval_nat_numeral)

text \<open>
  C1 in the basic version, on the run \<open>before_crash_ng\<close>. The next frame moves the
  bush and the coin to 88.89. The player overlaps the bush and the state becomes
  gameover; the same frame goes on to collect the coin, to raise the coin count from 0
  to 1 and to add 0.1 to the score.
\<close>

theorem collision_tick_continues_ng:
  "gameState_ng before_crash_ng = PlayingNG \<and>
   coins_ng before_crash_ng = 0 \<and>
   map m_collected (coinsRef_ng before_crash_ng) = [False] \<and>
   scoreRef_ng before_crash_ng = 17.8 \<and>
   overlaps (playerHitbox_ng (playerRef_ng (update_ng 16 noSpawn before_crash_ng)))
     (obsHitbox_ng (hd (obstaclesRef_ng (update_ng 16 noSpawn before_crash_ng)))) \<and>
   gameState_ng (update_ng 16 noSpawn before_crash_ng) = GameOverNG \<and>
   coins_ng (update_ng 16 noSpawn before_crash_ng) = 1 \<and>
   map m_collected (coinsRef_ng (update_ng 16 noSpawn before_crash_ng)) = [True] \<and>
   scoreRef_ng (update_ng 16 noSpawn before_crash_ng) = 17.9"
  by (simp add: before_crash_ng_eq run_ng_defs)

text \<open>
  The elaborate version on its own run to the rock: the frame of the collision leaves
  score and coins as the frame before it left them.
\<close>

lemma collision_tick_aborts_example:
  "gameState (ui_run (approach 164)) = Playing \<and>
   gameState (update 16 noSpawn (ui_run (approach 164))) = Hit \<and>
   scoreRef (update 16 noSpawn (ui_run (approach 164))) = scoreRef (ui_run (approach 164)) \<and>
   coins (update 16 noSpawn (ui_run (approach 164))) = coins (ui_run (approach 164)) \<and>
   coinsRef (update 16 noSpawn (ui_run (approach 164))) =
     advanceCoins (gameSpeedRef (ui_run (approach 164)) + SPEED_INCREMENT)
       (coinsRef (ui_run (approach 164)))"
  by (simp add: approach_164 run_defs)

end
